theory Spec2Isabelle
  imports Complex_Main "HOL-Library.Word" "HOL-Library.Stream"
begin

section \<open>Images, label maps and errors\<close>

text \<open>
  A two-dimensional array (a numpy array of shape \<open>(H, W)\<close>, a single-band PIL image)
  is the list of its rows. The height is the number of rows, the width the length of the
  first row; an array is rectangular when every row has that length. An array with no
  row has width 0.
\<close>

type_synonym 'a img = "'a list list"

type_synonym u8 = "8 word"

datatype error = ValueError | IndexError | ShapeError | FileNotFoundError

definition height :: "'a img \<Rightarrow> nat" where
  "height im = length im"

definition width :: "'a img \<Rightarrow> nat" where
  "width im = (case im of [] \<Rightarrow> 0 | r # _ \<Rightarrow> length r)"

definition rect :: "'a img \<Rightarrow> bool" where
  "rect im = (\<forall>r \<in> set im. length r = width im)"

definition pixels :: "'a img \<Rightarrow> 'a set" where
  "pixels im = set (concat im)"

section \<open>Resizer (data.py)\<close>

text \<open>
  \<^verbatim>\<open>skimage.transform.resize(..., order=0, anti_aliasing=False, preserve_range=True)\<close>:
  interpolation of order 0 copies, for each cell of the output grid, the input cell that
  holds the centre of the output cell scaled back to the input grid. Along an axis of
  \<open>n\<close> input cells and \<open>s\<close> output cells, output cell \<open>k\<close> has its centre at
  \<open>(k + 1/2) * n / s\<close>, which lies in input cell \<open>((2 * k + 1) * n) div (2 * s)\<close>.
  No smoothing is applied before sampling (\<open>anti_aliasing=False\<close>) and the values keep
  their range (\<open>preserve_range=True\<close>). The library rejects an input with no pixel and
  a target of no pixel; the model returns \<open>ValueError\<close> for both.
\<close>

definition nearest_index :: "nat \<Rightarrow> nat \<Rightarrow> nat \<Rightarrow> nat" where
  "nearest_index n s k = ((2 * k + 1) * n) div (2 * s)"

definition resize_order0 :: "'a img \<Rightarrow> nat \<Rightarrow> error + 'a img" where
  "resize_order0 im s =
     (if s = 0 \<or> height im = 0 \<or> width im = 0 then Inl ValueError
      else Inr (map (\<lambda>y. map (\<lambda>x. im ! nearest_index (height im) s y
                                      ! nearest_index (width im) s x) [0..<s]) [0..<s]))"

text \<open>
  \<^verbatim>\<open>.astype('uint8')\<close> keeps the low eight bits of an integer value.
\<close>

definition astype_uint8 :: "int img \<Rightarrow> u8 img" where
  "astype_uint8 im = map (map word_of_int) im"

text \<open>
  \<^verbatim>\<open>
  def _resize_mask(mask: np.ndarray, new_size: int) -> np.ndarray:
      return skimage.transform.resize(mask,
                                      (new_size, new_size),
                                      order=0,  # mode=nearest
                                      anti_aliasing=False,
                                      preserve_range=True).astype('uint8')
  \<close>
  The label map read from a file is an integer array of any width (\<open>int\<close>); the result
  is an array of bytes.
\<close>

definition resize_mask :: "int img \<Rightarrow> nat \<Rightarrow> error + u8 img" where
  "resize_mask msk new_size =
     (case resize_order0 msk new_size of
        Inl e \<Rightarrow> Inl e
      | Inr out \<Rightarrow> Inr (astype_uint8 out))"

section \<open>Library operations on images (skimage, PIL, torchvision)\<close>

text \<open>
  What the repository's code calls in its libraries and cannot be read from data.py is a
  parameter of the model:
  \<^item> \<open>smooth\<close>: the filter that \<^verbatim>\<open>skimage.transform.resize\<close> applies before sampling when
    \<open>anti_aliasing\<close> is left at its default (the image resize does not switch it off);
  \<^item> \<open>to_uint8\<close>: the cast of one image pixel by \<^verbatim>\<open>.astype('uint8')\<close>;
  \<^item> \<open>jitter_px\<close>, \<open>jitter_adv\<close>: \<^verbatim>\<open>transforms.ColorJitter\<close>, which draws its four factors
    from torch's generator and computes each pixel of its output from them, from the image
    and from the pixel; \<open>jitter_adv\<close> is the generator it leaves behind;
  \<^item> \<open>to_tensor\<close>: \<^verbatim>\<open>ToTensor\<close> followed by \<^verbatim>\<open>Normalize(mean=(0,), std=(1,))\<close>.
  \<open>'q\<close> is a pixel of the decoded image file, \<open>'p\<close> a pixel of a PIL image and \<open>'t\<close> the
  tensor handed to the training loop.
\<close>

record ('q, 'p, 't) lib =
  smooth :: "'q img \<Rightarrow> nat \<Rightarrow> 'q img"
  to_uint8 :: "'q \<Rightarrow> 'p"
  jitter_px :: "real \<times> real \<times> real \<times> real \<Rightarrow> nat stream \<Rightarrow> 'p img \<Rightarrow> 'p \<Rightarrow> 'p"
  jitter_adv :: "real \<times> real \<times> real \<times> real \<Rightarrow> nat stream \<Rightarrow> nat stream"
  to_tensor :: "'p img \<Rightarrow> 't"

text \<open>
  \<^verbatim>\<open>
  def _resize_image(img: np.ndarray, new_size: int) -> np.ndarray:
      return skimage.transform.resize(img,
                                      (new_size, new_size),
                                      preserve_range=True,
                                      order=0).astype('uint8')
  \<close>
\<close>

definition resize_image :: "('q, 'p, 't) lib \<Rightarrow> 'q img \<Rightarrow> nat \<Rightarrow> error + 'p img" where
  "resize_image L im new_size =
     (case resize_order0 (smooth L im new_size) new_size of
        Inl e \<Rightarrow> Inl e
      | Inr out \<Rightarrow> Inr (map (map (to_uint8 L)) out))"

text \<open>
  \<^verbatim>\<open>TF.to_pil_image\<close> of an array of bytes and \<^verbatim>\<open>np.array\<close> of a PIL image keep the grid
  of pixels as it is.
\<close>

definition to_pil_image :: "'a img \<Rightarrow> 'a img" where
  "to_pil_image a = a"

definition np_array :: "'a img \<Rightarrow> 'a img" where
  "np_array a = a"

text \<open>
  \<^verbatim>\<open>TF.crop(img, top, left, height, width)\<close> on a PIL image returns an image of exactly the
  size asked for; a cell of the crop window that lies outside the image is 0.
  \<^verbatim>\<open>TF.hflip\<close> mirrors every row.
\<close>

definition pixel_at :: "('a::zero) img \<Rightarrow> nat \<Rightarrow> nat \<Rightarrow> 'a" where
  "pixel_at im y x = (if y < length im \<and> x < length (im ! y) then im ! y ! x else 0)"

definition TF_crop :: "('a::zero) img \<Rightarrow> nat \<Rightarrow> nat \<Rightarrow> nat \<Rightarrow> nat \<Rightarrow> 'a img" where
  "TF_crop im i j h w =
     map (\<lambda>y. map (\<lambda>x. pixel_at im (i + y) (j + x)) [0..<w]) [0..<h]"

definition TF_hflip :: "'a img \<Rightarrow> 'a img" where
  "TF_hflip im = map rev im"

section \<open>Random sources\<close>

text \<open>
  The code draws from two process-wide generators: torch's (colour jitter, crop offsets)
  and the one of Python's \<open>random\<close> module (the flip). The model passes both explicitly,
  each as the stream of the values it will return. \<^verbatim>\<open>random.random()\<close> returns the next
  value of Python's stream; \<^verbatim>\<open>torch.randint(low, high, size=(1,)).item()\<close> maps the next
  raw value of torch's stream into \<open>[low, high)\<close>.
\<close>

record rng =
  torch_gen :: "nat stream"
  py_gen :: "real stream"

definition random_random :: "real stream \<Rightarrow> real \<times> real stream" where
  "random_random g = (shd g, stl g)"

definition torch_randint :: "nat \<Rightarrow> nat \<Rightarrow> nat stream \<Rightarrow> nat \<times> nat stream" where
  "torch_randint low high g = (low + shd g mod (high - low), stl g)"

section \<open>Augmentation pipeline (data.py)\<close>

text \<open>
  \<^verbatim>\<open>transforms.RandomCrop.get_params(img, output_size)\<close>:
  \<^verbatim>\<open>
      _, h, w = F.get_dimensions(img)
      th, tw = output_size
      if h < th or w < tw:
          raise ValueError(...)
      if w == tw and h == th:
          return 0, 0, h, w
      i = torch.randint(0, h - th + 1, size=(1,)).item()
      j = torch.randint(0, w - tw + 1, size=(1,)).item()
      return i, j, th, tw
  \<close>
\<close>

definition RandomCrop_get_params ::
  "'a img \<Rightarrow> nat \<times> nat \<Rightarrow> nat stream \<Rightarrow> error + ((nat \<times> nat \<times> nat \<times> nat) \<times> nat stream)" where
  "RandomCrop_get_params im output_size g =
     (let h = height im; w = width im; th = fst output_size; tw = snd output_size in
      if h < th \<or> w < tw then Inl ValueError
      else if w = tw \<and> h = th then Inr ((0, 0, h, w), g)
      else (let (i, g1) = torch_randint 0 (h - th + 1) g;
                (j, g2) = torch_randint 0 (w - tw + 1) g1
            in Inr ((i, j, th, tw), g2)))"

text \<open>
  \<^verbatim>\<open>
  class PairRandomCrop(object):
      def __init__(self, image_size: int):
          self._image_size = image_size

      def __call__(self, image, mask):
          crop_params = transforms.RandomCrop.get_params(
              image, output_size=(self._image_size, self._image_size))
          start_y, start_x, new_height, new_width = crop_params
          image = TF.crop(image, start_y, start_x, new_height, new_width)
          mask = TF.crop(mask, start_y, start_x, new_height, new_width)
          return image, mask
  \<close>
\<close>

definition PairRandomCrop_call ::
  "nat \<Rightarrow> ('p::zero) img \<Rightarrow> ('m::zero) img \<Rightarrow> nat stream
     \<Rightarrow> error + (('p img \<times> 'm img) \<times> nat stream)" where
  "PairRandomCrop_call image_size img msk g =
     (case RandomCrop_get_params img (image_size, image_size) g of
        Inl e \<Rightarrow> Inl e
      | Inr ((start_y, start_x, new_height, new_width), g') \<Rightarrow>
          Inr ((TF_crop img start_y start_x new_height new_width,
                TF_crop msk start_y start_x new_height new_width), g'))"

text \<open>
  \<^verbatim>\<open>
  @dataclass
  class DataAugmentation(object):
      central_crop_size: int = 512
      h_flipping_chance: float = 0.50
      brightness_rate: float = 0.10
      contrast_rate: float = 0.10
      saturation_rate: float = 0.10
      hue_rate: float = 0.05
  \<close>
  Sizes are natural numbers; rates and the threshold are real numbers.
\<close>

record DataAugmentation =
  central_crop_size :: nat
  h_flipping_chance :: real
  brightness_rate :: real
  contrast_rate :: real
  saturation_rate :: real
  hue_rate :: real

definition DataAugmentation_default :: DataAugmentation where
  "DataAugmentation_default =
     \<lparr>central_crop_size = 512, h_flipping_chance = 0.50, brightness_rate = 0.10,
      contrast_rate = 0.10, saturation_rate = 0.10, hue_rate = 0.05\<rparr>"

definition ColorJitter ::
  "('q, 'p, 't) lib \<Rightarrow> DataAugmentation \<Rightarrow> 'p img \<Rightarrow> nat stream \<Rightarrow> 'p img \<times> nat stream" where
  "ColorJitter L self img g =
     (let rates = (brightness_rate self, contrast_rate self, saturation_rate self, hue_rate self)
      in (map (map (jitter_px L rates g img)) img, jitter_adv L rates g))"

text \<open>
  \<^verbatim>\<open>
      def augment(self, image, mask):
          image = transforms.ColorJitter(brightness=self.brightness_rate, ...)(image)
          random_crop = PairRandomCrop(image_size=self.central_crop_size)
          image, mask = random_crop(image, mask)
          if random.random() > self.h_flipping_chance:
              image, mask = TF.hflip(image), TF.hflip(mask)
          return image, mask
  \<close>
\<close>

definition augment ::
  "('q, 'p::zero, 't) lib \<Rightarrow> DataAugmentation \<Rightarrow> 'p img \<Rightarrow> ('m::zero) img \<Rightarrow> rng
     \<Rightarrow> error + (('p img \<times> 'm img) \<times> rng)" where
  "augment L self img msk r =
     (let (image1, g1) = ColorJitter L self img (torch_gen r) in
      case PairRandomCrop_call (central_crop_size self) image1 msk g1 of
        Inl e \<Rightarrow> Inl e
      | Inr ((image2, mask2), g2) \<Rightarrow>
          (let (u, p') = random_random (py_gen r);
               r' = \<lparr>torch_gen = g2, py_gen = p'\<rparr>
           in if u > h_flipping_chance self
              then Inr ((TF_hflip image2, TF_hflip mask2), r')
              else Inr ((image2, mask2), r')))"


section \<open>Dataset (data.py)\<close>

text \<open>
  The file system as the constructor sees it: the decoded content of the JSON file at a
  path (\<open>None\<close> when the file cannot be opened) and which paths are files. Every access
  to it is recorded, in order.
\<close>

record row =
  image_path :: string
  mask_path :: string
  set_tag :: string

record fs =
  json_at :: "string \<Rightarrow> row list option"
  isfile :: "string \<Rightarrow> bool"

datatype io_event = Open string | IsFile string | Print nat nat

record DeepFashion2Dataset =
  image_resize :: nat
  data_augmentation :: "DataAugmentation option"
  image_mask_pairs :: "(string \<times> string) list"

definition path_join :: "string \<Rightarrow> string \<Rightarrow> string" where
  "path_join a b =
     (if b \<noteq> [] \<and> hd b = CHR ''/'' then b
      else if a = [] \<or> last a = CHR ''/'' then a @ b
      else a @ ''/'' @ b)"

definition valid_subsets :: "string list" where
  "valid_subsets = [''train'', ''validation'', ''test'']"

definition probe :: "fs \<Rightarrow> string \<times> string \<Rightarrow> io_event list" where
  "probe f pr = (if isfile f (fst pr) then [IsFile (fst pr), IsFile (snd pr)] else [IsFile (fst pr)])"

text \<open>
  \<^verbatim>\<open>
      def __init__(self, path, image_resize, subset='train', data_augmentation=None):
          self._image_resize = image_resize
          valid_subsets = ['train', 'validation', 'test']
          if subset not in valid_subsets:
              raise ValueError(...)
          self._data_augmentation = data_augmentation
          with open(os.path.join(path, 'data.json'), 'r') as file:
              data = json.load(file)
          images = [os.path.join(path, row['image_path'])
                    for row in data if row['set'] == subset]
          masks = [os.path.join(path, row['mask_path'])
                   for row in data if row['set'] == subset]
          self._image_mask_pairs = np.array([
              (img, mask) for (img, mask) in zip(images, masks)
              if os.path.isfile(img) and os.path.isfile(mask)])
          print(f'Read {len(images)} images, built ' +
                f'{len(self._image_mask_pairs)} image pairs')
  \<close>
  The result is the dataset or the error raised, with the accesses to the file system
  and the line printed until then.
\<close>

definition DeepFashion2Dataset_init ::
  "fs \<Rightarrow> string \<Rightarrow> nat \<Rightarrow> string \<Rightarrow> DataAugmentation option
     \<Rightarrow> (error + DeepFashion2Dataset) \<times> io_event list" where
  "DeepFashion2Dataset_init f path new_size subset_name aug =
     (if subset_name \<notin> set valid_subsets then (Inl ValueError, [])
      else
        (let manifest = path_join path ''data.json'' in
         case json_at f manifest of
           None \<Rightarrow> (Inl FileNotFoundError, [Open manifest])
         | Some data \<Rightarrow>
             (let images = map (\<lambda>rw. path_join path (image_path rw))
                             (filter (\<lambda>rw. set_tag rw = subset_name) data);
                  masks = map (\<lambda>rw. path_join path (mask_path rw))
                            (filter (\<lambda>rw. set_tag rw = subset_name) data);
                  pairs = zip images masks;
                  kept = filter (\<lambda>pr. isfile f (fst pr) \<and> isfile f (snd pr)) pairs
              in (Inr \<lparr>image_resize = new_size, data_augmentation = aug,
                       image_mask_pairs = kept\<rparr>,
                  Open manifest # concat (map (probe f) pairs)
                    @ [Print (length images) (length kept)]))))"

text \<open>
  \<^verbatim>\<open>
      def _transform(self, image, mask):
          image = TF.to_pil_image(_resize_image(image, self._image_resize))
          mask = TF.to_pil_image(_resize_mask(mask, self._image_resize))
          if self._data_augmentation is not None:
              image, mask = self._data_augmentation.augment(image, mask)
          image = transforms.ToTensor()(image)
          image = transforms.Normalize(mean=(0,), std=(1,))(image)
          return image, np.array(mask)
  \<close>
\<close>

definition transform ::
  "('q, 'p::zero, 't) lib \<Rightarrow> DeepFashion2Dataset \<Rightarrow> 'q img \<Rightarrow> int img \<Rightarrow> rng
     \<Rightarrow> error + (('t \<times> u8 img) \<times> rng)" where
  "transform L self img msk r =
     (case resize_image L img (image_resize self) of
        Inl e \<Rightarrow> Inl e
      | Inr a \<Rightarrow>
          (case resize_mask msk (image_resize self) of
             Inl e \<Rightarrow> Inl e
           | Inr b \<Rightarrow>
               (let image1 = to_pil_image a; mask1 = to_pil_image b in
                case data_augmentation self of
                  None \<Rightarrow> Inr ((to_tensor L image1, np_array mask1), r)
                | Some aug \<Rightarrow>
                    (case augment L aug image1 mask1 r of
                       Inl e \<Rightarrow> Inl e
                     | Inr ((image2, mask2), r') \<Rightarrow>
                         Inr ((to_tensor L image2, np_array mask2), r')))))"

section \<open>IoU metric (metrics.py)\<close>

text \<open>
  A tensor of shape \<open>(N, H, W)\<close> is a list of \<open>N\<close> arrays, a tensor of shape
  \<open>(N, C, H, W)\<close> a list of \<open>N\<close> lists of \<open>C\<close> arrays. Labels are integers, scores are
  real numbers. A Python float is a real number, infinity or not-a-number; the rounding
  of floating-point division is not modelled.
\<close>

type_synonym 'a tensor3 = "'a img list"

type_synonym 'a tensor4 = "'a img list list"

datatype pyfloat = Fin real | PInf | NaN

definition flatten3 :: "'a tensor3 \<Rightarrow> 'a list" where
  "flatten3 t = concat (concat t)"

definition shape3 :: "'a tensor3 \<Rightarrow> nat list list" where
  "shape3 t = map (map length) t"

text \<open>\<^verbatim>\<open>y_true.unique()\<close>: the distinct values, in increasing order.\<close>

definition unique :: "int tensor3 \<Rightarrow> int list" where
  "unique t = sort (remdups (flatten3 t))"

text \<open>
  \<^verbatim>\<open>torch.argmax(y_pred, dim=1)\<close>: for every sample and every position, the index of the
  first channel that holds the greatest score. A class dimension of size 0 raises
  \<open>IndexError\<close>.
\<close>

fun argmax_from :: "nat \<Rightarrow> real \<Rightarrow> nat \<Rightarrow> real list \<Rightarrow> nat" where
  "argmax_from b v i [] = b"
| "argmax_from b v i (x # xs) =
     (if v < x then argmax_from i x (Suc i) xs else argmax_from b v (Suc i) xs)"

definition first_argmax :: "real list \<Rightarrow> nat" where
  "first_argmax xs = (case xs of [] \<Rightarrow> 0 | x # rest \<Rightarrow> argmax_from 0 x 1 rest)"

definition argmax_sample :: "real img list \<Rightarrow> error + int img" where
  "argmax_sample s =
     (case s of
        [] \<Rightarrow> Inl IndexError
      | ch # _ \<Rightarrow>
          Inr (map (\<lambda>y. map (\<lambda>x. int (first_argmax (map (\<lambda>c. c ! y ! x) s)))
                          [0..<width ch]) [0..<height ch]))"

fun collect :: "(error + 'a) list \<Rightarrow> error + 'a list" where
  "collect [] = Inr []"
| "collect (Inl e # _) = Inl e"
| "collect (Inr x # rs) = (case collect rs of Inl e \<Rightarrow> Inl e | Inr xs \<Rightarrow> Inr (x # xs))"

definition argmax_dim1 :: "real tensor4 \<Rightarrow> error + int tensor3" where
  "argmax_dim1 y_pred = collect (map argmax_sample y_pred)"

text \<open>
  Element-wise operations of tensors of one shape: \<^verbatim>\<open>torch.eq(t, c).bool()\<close>, \<open>&\<close>,
  \<open>|\<close>, and \<^verbatim>\<open>.float().sum()\<close>, which counts the cells that hold \<open>True\<close>.
\<close>

definition tensor_eq :: "int tensor3 \<Rightarrow> int \<Rightarrow> bool tensor3" where
  "tensor_eq t c = map (map (map (\<lambda>v. v = c))) t"

definition tensor_and :: "bool tensor3 \<Rightarrow> bool tensor3 \<Rightarrow> bool tensor3" where
  "tensor_and a b = map2 (map2 (map2 (\<and>))) a b"

definition tensor_or :: "bool tensor3 \<Rightarrow> bool tensor3 \<Rightarrow> bool tensor3" where
  "tensor_or a b = map2 (map2 (map2 (\<or>))) a b"

definition float_sum :: "bool tensor3 \<Rightarrow> real" where
  "float_sum t = real (length (filter id (flatten3 t)))"

text \<open>Division of two floats that are counts: \<open>0 / 0\<close> is not-a-number, \<open>a / 0\<close> infinity.\<close>

definition fdiv :: "real \<Rightarrow> real \<Rightarrow> pyfloat" where
  "fdiv a b = (if b = 0 then (if a = 0 then NaN else PInf) else Fin (a / b))"

fun fadd :: "pyfloat \<Rightarrow> pyfloat \<Rightarrow> pyfloat" where
  "fadd NaN _ = NaN"
| "fadd _ NaN = NaN"
| "fadd PInf _ = PInf"
| "fadd _ PInf = PInf"
| "fadd (Fin a) (Fin b) = Fin (a + b)"

text \<open>
  \<^verbatim>\<open>np.mean\<close> of a list of floats: not-a-number for the empty list (numpy warns and
  returns it), the sum divided by the length otherwise.
\<close>

definition np_mean :: "pyfloat list \<Rightarrow> pyfloat" where
  "np_mean xs =
     (if xs = [] then NaN
      else (case foldl fadd (Fin 0) xs of
              Fin a \<Rightarrow> Fin (a / real (length xs))
            | PInf \<Rightarrow> PInf
            | NaN \<Rightarrow> NaN))"

text \<open>
  \<^verbatim>\<open>
      def _class_iou(c):
          predicted_class_mask = torch.eq(predicted_image, c).bool()
          true_class_mask = torch.eq(y_true, c).bool()
          intersection = predicted_class_mask & true_class_mask
          union = predicted_class_mask | true_class_mask
          return (intersection.float().sum() / union.float().sum()).mean()
  \<close>
\<close>

definition class_union :: "int tensor3 \<Rightarrow> int tensor3 \<Rightarrow> int \<Rightarrow> bool tensor3" where
  "class_union predicted_image y_true c =
     tensor_or (tensor_eq predicted_image c) (tensor_eq y_true c)"

definition class_intersection :: "int tensor3 \<Rightarrow> int tensor3 \<Rightarrow> int \<Rightarrow> bool tensor3" where
  "class_intersection predicted_image y_true c =
     tensor_and (tensor_eq predicted_image c) (tensor_eq y_true c)"

definition class_iou :: "int tensor3 \<Rightarrow> int tensor3 \<Rightarrow> int \<Rightarrow> pyfloat" where
  "class_iou predicted_image y_true c =
     fdiv (float_sum (class_intersection predicted_image y_true c))
          (float_sum (class_union predicted_image y_true c))"

text \<open>
  \<^verbatim>\<open>
  def iou(y_true: torch.Tensor, y_pred: torch.Tensor) -> float:
      true_classes = y_true.unique().detach()
      predicted_image = torch.argmax(y_pred, dim=1)
      ...
      # Iterate over true classes so we never have a zero division
      return np.mean([_class_iou(c).item() for c in true_classes if c != 0])
  \<close>
  The element-wise operations of \<open>_class_iou\<close> need the predicted image and the ground
  truth to have one shape; the model returns \<open>ShapeError\<close> when a class is scored and
  they have not (torch's broadcasting of dimensions of size 1 is not modelled).
\<close>

definition true_classes :: "int tensor3 \<Rightarrow> int list" where
  "true_classes y_true = unique y_true"

definition scored_classes :: "int tensor3 \<Rightarrow> int list" where
  "scored_classes y_true = filter (\<lambda>c. c \<noteq> 0) (true_classes y_true)"

definition iou :: "int tensor3 \<Rightarrow> real tensor4 \<Rightarrow> error + pyfloat" where
  "iou y_true y_pred =
     (case argmax_dim1 y_pred of
        Inl e \<Rightarrow> Inl e
      | Inr predicted_image \<Rightarrow>
          if scored_classes y_true \<noteq> [] \<and> shape3 predicted_image \<noteq> shape3 y_true
          then Inl ShapeError
          else Inr (np_mean (map (class_iou predicted_image y_true) (scored_classes y_true))))"

section \<open>Concrete inputs\<close>

text \<open>
  An instance of the library operations and small inputs, on which the model is run: no
  smoothing, a colour jitter that adds 1 to every pixel and takes one draw, tensors that
  are the pixel grids themselves.
\<close>

definition demo_lib :: "(int, u8, u8 img) lib" where
  "demo_lib =
     \<lparr>smooth = (\<lambda>im s. im), to_uint8 = word_of_int,
      jitter_px = (\<lambda>rates g im p. p + 1), jitter_adv = (\<lambda>rates g. stl g),
      to_tensor = (\<lambda>im. im)\<rparr>"

definition demo_rng :: rng where
  "demo_rng = \<lparr>torch_gen = siterate Suc 1, py_gen = sconst (7 / 10)\<rparr>"


definition demo_config :: DataAugmentation where
  "demo_config = DataAugmentation_default\<lparr>central_crop_size := 2\<rparr>"

definition demo_image :: "u8 img" where
  "demo_image = [[1, 2, 3], [4, 5, 6], [7, 8, 9]]"

definition demo_mask :: "u8 img" where
  "demo_mask = [[0, 0, 1], [0, 2, 1], [2, 2, 1]]"

definition demo_dataset :: DeepFashion2Dataset where
  "demo_dataset = \<lparr>image_resize = 2, data_augmentation = None, image_mask_pairs = []\<rparr>"

definition demo_fs :: fs where
  "demo_fs = \<lparr>json_at = (\<lambda>p. None), isfile = (\<lambda>p. False)\<rparr>"

definition demo_true :: "int tensor3" where
  "demo_true = [[[0, 1], [2, 1]]]"

definition demo_scores :: "real tensor4" where
  "demo_scores = [[[[9, 1], [2, 1]], [[5, 8], [3, 7]], [[5, 1], [6, 2]]]]"

section \<open>Properties of the resizer\<close>

lemma nearest_index_less:
  assumes "k < s" and "0 < n"
  shows "nearest_index n s k < n"
proof -
  have "2 * k + 1 < 2 * s" using assms(1) by simp
  then have "(2 * k + 1) * n < (2 * s) * n" using assms(2) by (rule mult_less_mono1)
  then have "(2 * k + 1) * n < n * (2 * s)" by (simp only: mult.commute)
  then show ?thesis
    unfolding nearest_index_def by (rule less_mult_imp_div_less)
qed

lemma rect_nth_in_pixels:
  assumes "rect im" and "y < height im" and "x < width im"
  shows "im ! y ! x \<in> pixels im"
proof -
  have row: "im ! y \<in> set im" using assms(2) by (simp add: height_def)
  then have "length (im ! y) = width im" using assms(1) by (simp add: rect_def)
  then have "im ! y ! x \<in> set (im ! y)" using assms(3) by simp
  then show ?thesis using row by (auto simp: pixels_def)
qed

lemma resize_order0_pixels:
  assumes "rect im" and "resize_order0 im s = Inr out"
  shows "pixels out \<subseteq> pixels im"
proof
  fix v assume "v \<in> pixels out"
  from assms(2) have pos: "0 < height im" "0 < width im"
    and out: "out = map (\<lambda>y. map (\<lambda>x. im ! nearest_index (height im) s y
                                      ! nearest_index (width im) s x) [0..<s]) [0..<s]"
    by (auto simp: resize_order0_def split: if_splits)
  from \<open>v \<in> pixels out\<close> obtain y x where "y < s" "x < s"
    and v: "v = im ! nearest_index (height im) s y ! nearest_index (width im) s x"
    unfolding out pixels_def by auto
  then show "v \<in> pixels im"
    using rect_nth_in_pixels [OF assms(1)] nearest_index_less pos by simp
qed

lemma pixels_astype_uint8: "pixels (astype_uint8 im) = word_of_int ` pixels im"
  by (auto simp: pixels_def astype_uint8_def)

text \<open>
  C1, as stated, fails: a label map holding the value 256 (a 16-bit mask) resized to one
  pixel holds the byte 0, which is not a value of the input.
\<close>

theorem resize_mask_label_counterexample:
  "resize_mask [[256]] 1 = Inr [[0]] \<and> \<not> uint ` pixels [[0 :: u8]] \<subseteq> pixels [[256 :: int]]"
  by (simp add: resize_mask_def resize_order0_def astype_uint8_def height_def width_def
      nearest_index_def pixels_def)

text \<open>
  C1, amended: for every rectangular label map whose values all fit in a byte
  (\<open>0 \<le> v < 256\<close>) and every target size, each value of the resized label map is a
  value of the input: order-0 sampling without smoothing copies input cells and the cast
  to bytes leaves such values as they are.
\<close>

theorem resize_mask_label_preservation:
  assumes "rect m"
    and "\<forall>v \<in> pixels m. 0 \<le> v \<and> v < 256"
    and "resize_mask m s = Inr out"
  shows "uint ` pixels out \<subseteq> pixels m"
proof
  fix v assume v: "v \<in> uint ` pixels out"
  from assms(3) obtain mid where mid: "resize_order0 m s = Inr mid"
    and out: "out = astype_uint8 mid"
    by (auto simp: resize_mask_def split: sum.splits)
  from v obtain a where a: "a \<in> pixels mid" and va: "v = uint (word_of_int a :: u8)"
    unfolding out pixels_astype_uint8 by auto
  have am: "a \<in> pixels m" using resize_order0_pixels [OF assms(1) mid] a by auto
  then have "0 \<le> a" "a < 256" using assms(2) by auto
  then have "uint (word_of_int a :: u8) = a"
    by (simp add: uint_word_of_int take_bit_int_eq_self)
  then show "v \<in> pixels m" using am va by simp
qed

theorem resize_mask_label_preservation_witness:
  "rect [[0, 1], [2, 1 :: int]]
   \<and> pixels [[0, 1], [2, 1 :: int]] \<subseteq> {0..<256}
   \<and> resize_mask [[0, 1], [2, 1]] 3 = Inr [[0, 1, 1], [2, 1, 1], [2, 1, 1]]
   \<and> uint ` pixels [[0, 1, 1], [2, 1, 1], [2, 1, 1 :: u8]] \<subseteq> pixels [[0, 1], [2, 1 :: int]]"
proof -
  have r: "rect [[0, 1], [2, 1 :: int]]" by (simp add: rect_def width_def)
  have b: "\<forall>v \<in> pixels [[0, 1], [2, 1 :: int]]. 0 \<le> v \<and> v < 256"
    by (simp add: pixels_def)
  have e: "resize_mask [[0, 1], [2, 1]] 3 = Inr [[0, 1, 1], [2, 1, 1], [2, 1, 1]]"
    by (simp add: resize_mask_def resize_order0_def astype_uint8_def height_def width_def
        nearest_index_def upt_conv_Cons)
  have "pixels [[0, 1], [2, 1 :: int]] \<subseteq> {0..<256}" using b by auto
  then show ?thesis using r e resize_mask_label_preservation [OF r b e] by simp
qed

lemmas demo_defs = demo_lib_def demo_rng_def demo_config_def demo_image_def demo_mask_def
  DataAugmentation_default_def

lemmas run_defs = augment_def ColorJitter_def PairRandomCrop_call_def
  RandomCrop_get_params_def torch_randint_def random_random_def TF_crop_def TF_hflip_def
  pixel_at_def height_def width_def Let_def

section \<open>Properties of the crop\<close>

lemma height_TF_crop: "height (TF_crop im i j h w) = h"
  by (simp add: TF_crop_def height_def)

lemma width_TF_crop: "width (TF_crop im i j h w) = (if h = 0 then 0 else w)"
  by (cases h) (simp_all add: TF_crop_def width_def upt_conv_Cons del: upt_Suc)

lemma height_TF_hflip: "height (TF_hflip im) = height im"
  by (simp add: TF_hflip_def height_def)

lemma width_TF_hflip: "width (TF_hflip im) = width im"
  by (cases im) (simp_all add: TF_hflip_def width_def)

lemma height_map_map: "height (map (map f) im) = height im"
  by (simp add: height_def)

lemma width_map_map: "width (map (map f) im) = width im"
  by (cases im) (simp_all add: width_def)

lemma TF_crop_nth:
  assumes "y < h" and "x < w"
  shows "TF_crop im i j h w ! y ! x = pixel_at im (i + y) (j + x)"
  using assms by (simp add: TF_crop_def)

lemma offset_fits:
  fixes a k n :: nat
  assumes "k \<le> n"
  shows "a mod Suc (n - k) + k \<le> n"
proof -
  have "a mod Suc (n - k) < Suc (n - k)" by (rule mod_less_divisor) simp
  then show ?thesis using assms by arith
qed

lemma get_params_cases:
  assumes "RandomCrop_get_params im (th, tw) g = Inr ((i, j, h, w), g')"
  shows "h = th \<and> w = tw \<and> i + th \<le> height im \<and> j + tw \<le> width im"
  using assms
  by (auto simp: RandomCrop_get_params_def torch_randint_def Let_def offset_fits
      split: if_splits)

lemma get_params_total:
  assumes "th \<le> height im" and "tw \<le> width im"
  shows "\<exists>i j g'. RandomCrop_get_params im (th, tw) g = Inr ((i, j, th, tw), g')"
  using assms
  by (auto simp: RandomCrop_get_params_def torch_randint_def Let_def)

lemma demo_crop:
  "PairRandomCrop_call 2 demo_image demo_mask (siterate Suc 2)
   = Inr (([[2, 3], [5, 6]], [[0, 1], [2, 1]]), siterate Suc 4)"
  by (simp add: demo_defs run_defs eval_nat_numeral mod_Suc upt_conv_Cons)

text \<open>
  C3: one call of the pair crop takes one set of crop parameters
  \<open>(i, j, n, n)\<close> from \<open>RandomCrop.get_params\<close>, the window lies inside the image, and the
  image and the mask are both cropped at that offset and size. Cropping only selects:
  the pixel at \<open>(y, x)\<close> of a crop is the pixel at \<open>(i + y, j + x)\<close> of its source, for
  the image and, wherever the mask has a cell there, for the mask.
\<close>

theorem PairRandomCrop_synchronized:
  assumes "PairRandomCrop_call n img msk g = Inr ((img', msk'), g')" and "rect img"
  shows "\<exists>i j. RandomCrop_get_params img (n, n) g = Inr ((i, j, n, n), g')
       \<and> i + n \<le> height img \<and> j + n \<le> width img
       \<and> img' = TF_crop img i j n n \<and> msk' = TF_crop msk i j n n
       \<and> (\<forall>y<n. \<forall>x<n. img' ! y ! x = img ! (i + y) ! (j + x))
       \<and> (\<forall>y<n. \<forall>x<n. i + y < height msk \<longrightarrow> j + x < length (msk ! (i + y))
             \<longrightarrow> msk' ! y ! x = msk ! (i + y) ! (j + x))"
proof -
  from assms(1) obtain i j h w where gp: "RandomCrop_get_params img (n, n) g = Inr ((i, j, h, w), g')"
    and i': "img' = TF_crop img i j h w" and m': "msk' = TF_crop msk i j h w"
    by (auto simp: PairRandomCrop_call_def split: sum.splits)
  from get_params_cases [OF gp] have hw: "h = n" "w = n"
    and fit: "i + n \<le> height img" "j + n \<le> width img" by auto
  have px: "img' ! y ! x = img ! (i + y) ! (j + x)" if "y < n" "x < n" for y x
  proof -
    have yy: "i + y < length img" using fit(1) that(1) by (simp add: height_def)
    then have "img ! (i + y) \<in> set img" by simp
    then have "length (img ! (i + y)) = width img" using assms(2) by (simp add: rect_def)
    then have "j + x < length (img ! (i + y))" using fit(2) that(2) by simp
    then show ?thesis using yy that by (simp add: i' hw TF_crop_nth pixel_at_def)
  qed
  have mx: "msk' ! y ! x = msk ! (i + y) ! (j + x)"
    if "y < n" "x < n" "i + y < height msk" "j + x < length (msk ! (i + y))" for y x
    using that by (simp add: m' hw TF_crop_nth pixel_at_def height_def)
  show ?thesis
    using gp i' m' hw fit px mx by auto
qed

theorem PairRandomCrop_synchronized_witness:
  "PairRandomCrop_call 2 demo_image demo_mask (siterate Suc 2)
     = Inr (([[2, 3], [5, 6]], [[0, 1], [2, 1]]), siterate Suc 4)
   \<and> rect demo_image
   \<and> (\<exists>i j. RandomCrop_get_params demo_image (2, 2) (siterate Suc 2)
               = Inr ((i, j, 2, 2), siterate Suc 4)
       \<and> i + 2 \<le> height demo_image \<and> j + 2 \<le> width demo_image
       \<and> [[2, 3], [5, 6]] = TF_crop demo_image i j 2 2
       \<and> [[0, 1], [2, 1]] = TF_crop demo_mask i j 2 2
       \<and> (\<forall>y<2. \<forall>x<2. [[2, 3], [5, 6]] ! y ! x = demo_image ! (i + y) ! (j + x))
       \<and> (\<forall>y<2. \<forall>x<2. i + y < height demo_mask \<longrightarrow> j + x < length (demo_mask ! (i + y))
             \<longrightarrow> [[0, 1], [2, 1]] ! y ! x = demo_mask ! (i + y) ! (j + x)))"
proof -
  have r: "rect demo_image" by (simp add: rect_def width_def demo_image_def)
  show ?thesis using demo_crop r PairRandomCrop_synchronized [OF demo_crop r] by simp
qed

section \<open>Properties of the augmentation pipeline\<close>

lemma demo_augment:
  "augment demo_lib demo_config demo_image demo_mask demo_rng
   = Inr (([[4, 3], [7, 6]], [[1, 0], [1, 2]]),
          \<lparr>torch_gen = siterate Suc 4, py_gen = sconst (7 / 10)\<rparr>)"
  by (simp add: demo_defs run_defs eval_nat_numeral mod_Suc upt_conv_Cons)

text \<open>
  C2: a call of \<open>augment\<close> that returns has taken exactly one value from
  Python's generator, and its result is the cropped pair with both the image and the
  mask mirrored when that value is greater than \<open>h_flipping_chance\<close>, and the cropped
  pair itself, neither mirrored, otherwise.
\<close>

theorem augment_flip_synchronized:
  assumes "augment L cfg img msk r = Inr ((img', msk'), r')"
  shows "py_gen r' = stl (py_gen r)
       \<and> (\<exists>img2 msk2 g2.
             PairRandomCrop_call (central_crop_size cfg)
               (fst (ColorJitter L cfg img (torch_gen r))) msk
               (snd (ColorJitter L cfg img (torch_gen r))) = Inr ((img2, msk2), g2)
           \<and> (if shd (py_gen r) > h_flipping_chance cfg
              then img' = TF_hflip img2 \<and> msk' = TF_hflip msk2
              else img' = img2 \<and> msk' = msk2))"
  using assms
  by (auto simp: augment_def random_random_def Let_def split: prod.splits sum.splits if_splits)

theorem augment_flip_synchronized_witness:
  "augment demo_lib demo_config demo_image demo_mask demo_rng
     = Inr (([[4, 3], [7, 6]], [[1, 0], [1, 2]]),
            \<lparr>torch_gen = siterate Suc 4, py_gen = sconst (7 / 10)\<rparr>)
   \<and> h_flipping_chance demo_config < shd (py_gen demo_rng)
   \<and> py_gen \<lparr>torch_gen = siterate Suc 4, py_gen = sconst (7 / 10)\<rparr> = stl (py_gen demo_rng)
   \<and> [[4, 3], [7, 6]] = TF_hflip [[3, 4], [6, 7 :: u8]]
   \<and> [[1, 0], [1, 2]] = TF_hflip [[0, 1], [2, 1 :: u8]]"
proof -
  note w = augment_flip_synchronized [OF demo_augment]
  have "h_flipping_chance demo_config < shd (py_gen demo_rng)" by (simp add: demo_defs)
  then show ?thesis using demo_augment w by (simp add: TF_hflip_def)
qed

text \<open>
  C10: when the image and the mask are both at least
  \<open>central_crop_size\<close> high and wide, \<open>augment\<close> returns, and the image and the mask it
  returns are both \<open>central_crop_size\<close> high and \<open>central_crop_size\<close> wide.
\<close>

theorem augment_output_size:
  assumes "central_crop_size cfg \<le> height img" and "central_crop_size cfg \<le> width img"
    and "central_crop_size cfg \<le> height msk" and "central_crop_size cfg \<le> width msk"
  shows "\<exists>img' msk' r'. augment L cfg img msk r = Inr ((img', msk'), r')
       \<and> height img' = central_crop_size cfg \<and> width img' = central_crop_size cfg
       \<and> height msk' = central_crop_size cfg \<and> width msk' = central_crop_size cfg"
proof -
  let ?n = "central_crop_size cfg"
  let ?j = "ColorJitter L cfg img (torch_gen r)"
  have hj: "height (fst ?j) = height img" "width (fst ?j) = width img"
    by (simp_all add: ColorJitter_def Let_def height_map_map width_map_map)
  from get_params_total [of ?n "fst ?j" ?n "snd ?j"] assms(1,2) hj
  obtain i j g' where gp: "RandomCrop_get_params (fst ?j) (?n, ?n) (snd ?j) = Inr ((i, j, ?n, ?n), g')"
    by auto
  have pc: "PairRandomCrop_call ?n (fst ?j) msk (snd ?j)
      = Inr ((TF_crop (fst ?j) i j ?n ?n, TF_crop msk i j ?n ?n), g')"
    by (simp add: PairRandomCrop_call_def gp)
  show ?thesis
    by (cases "shd (py_gen r) > h_flipping_chance cfg")
       (simp_all add: augment_def pc random_random_def Let_def split_beta
          height_TF_crop width_TF_crop height_TF_hflip width_TF_hflip)
qed

theorem augment_output_size_witness:
  "central_crop_size demo_config \<le> height demo_image
   \<and> central_crop_size demo_config \<le> width demo_image
   \<and> central_crop_size demo_config \<le> height demo_mask
   \<and> central_crop_size demo_config \<le> width demo_mask
   \<and> (\<exists>img' msk' r'.
         augment demo_lib demo_config demo_image demo_mask demo_rng = Inr ((img', msk'), r')
       \<and> height img' = 2 \<and> width img' = 2 \<and> height msk' = 2 \<and> width msk' = 2)"
proof -
  have h: "central_crop_size demo_config \<le> height demo_image"
    "central_crop_size demo_config \<le> width demo_image"
    "central_crop_size demo_config \<le> height demo_mask"
    "central_crop_size demo_config \<le> width demo_mask"
    by (simp_all add: demo_defs height_def width_def)
  have c: "central_crop_size demo_config = 2" by (simp add: demo_defs)
  show ?thesis
    using h augment_output_size [OF h, of demo_lib demo_rng] by (simp add: c)
qed







section \<open>Properties of the dataset\<close>

lemma demo_transform:
  "transform demo_lib demo_dataset [[10, 20, 30], [40, 50, 60], [70, 80, 90]]
     [[0, 0, 1], [0, 2, 1], [2, 2, 1]] demo_rng
   = Inr (([[10, 30], [70, 90]], [[0, 1], [2, 1]]), demo_rng)"
  by (simp add: transform_def resize_image_def resize_mask_def resize_order0_def
      astype_uint8_def nearest_index_def to_pil_image_def np_array_def demo_dataset_def
      demo_lib_def height_def width_def upt_conv_Cons)

text \<open>
  C7: without an augmentation configuration, the mask returned by
  \<open>_transform\<close> is the resized mask, the image is the tensor of the resized image, and
  no random value is drawn, so nothing is cropped, mirrored or recoloured.
\<close>

theorem transform_no_augmentation:
  assumes "data_augmentation self = None"
    and "transform L self img msk r = Inr ((t, msk'), r')"
  shows "resize_mask msk (image_resize self) = Inr msk' \<and> r' = r
       \<and> (\<exists>a. resize_image L img (image_resize self) = Inr a \<and> t = to_tensor L a)"
  using assms
  by (auto simp: transform_def to_pil_image_def np_array_def Let_def split: sum.splits)

theorem transform_no_augmentation_witness:
  "data_augmentation demo_dataset = None
   \<and> transform demo_lib demo_dataset [[10, 20, 30], [40, 50, 60], [70, 80, 90]]
       [[0, 0, 1], [0, 2, 1], [2, 2, 1]] demo_rng
     = Inr (([[10, 30], [70, 90]], [[0, 1], [2, 1]]), demo_rng)
   \<and> resize_mask [[0, 0, 1], [0, 2, 1], [2, 2, 1]] (image_resize demo_dataset)
     = Inr [[0, 1], [2, 1]]"
proof -
  have n: "data_augmentation demo_dataset = None" by (simp add: demo_dataset_def)
  show ?thesis using n demo_transform transform_no_augmentation [OF n demo_transform] by simp
qed

text \<open>
  C9: constructing the dataset with a subset tag other than
  \<open>train\<close>, \<open>validation\<close> and \<open>test\<close> raises \<open>ValueError\<close> and makes no access to
  the file system.
\<close>

theorem init_unknown_subset:
  assumes "subset_name \<notin> {''train'', ''validation'', ''test''}"
  shows "DeepFashion2Dataset_init f path n subset_name aug = (Inl ValueError, [])"
  using assms by (simp add: DeepFashion2Dataset_init_def valid_subsets_def)

theorem init_unknown_subset_witness:
  "''dev'' \<notin> {''train'', ''validation'', ''test''}
   \<and> DeepFashion2Dataset_init demo_fs ''full_dataset'' 580 ''dev'' None = (Inl ValueError, [])"
proof -
  have h: "''dev'' \<notin> {''train'', ''validation'', ''test''}" by simp
  show ?thesis using h init_unknown_subset [OF h] by simp
qed

section \<open>Properties of the IoU metric\<close>

lemma collect_Inr:
  assumes "\<forall>r \<in> set rs. \<exists>x. r = Inr x"
  shows "\<exists>xs. collect rs = Inr xs"
  using assms
proof (induction rs)
  case Nil
  then show ?case by simp
next
  case (Cons r rs)
  then obtain x xs where "r = Inr x" "collect rs = Inr xs" by auto
  then show ?case by simp
qed

lemma argmax_dim1_total:
  assumes "\<forall>s \<in> set y_pred. s \<noteq> []"
  shows "\<exists>p. argmax_dim1 y_pred = Inr p"
  unfolding argmax_dim1_def
proof (rule collect_Inr)
  show "\<forall>r \<in> set (map argmax_sample y_pred). \<exists>x. r = Inr x"
    using assms by (auto simp: argmax_sample_def split: list.splits)
qed

lemma set_true_classes: "set (true_classes y_true) = set (flatten3 y_true)"
  by (simp add: true_classes_def unique_def)

lemma set_scored_classes: "set (scored_classes y_true) = set (flatten3 y_true) - {0}"
  by (auto simp: scored_classes_def set_true_classes)

lemma scored_classes_background:
  assumes "set (flatten3 y_true) \<subseteq> {0}"
  shows "scored_classes y_true = []"
proof -
  have "set (scored_classes y_true) = {}"
    using assms by (auto simp: set_scored_classes)
  then show ?thesis by simp
qed

lemma demo_argmax: "argmax_dim1 demo_scores = Inr demo_true"
  by (simp add: argmax_dim1_def argmax_sample_def first_argmax_def demo_scores_def
      demo_true_def height_def width_def upt_conv_Cons)

text \<open>
  C4, as stated, fails: for a ground truth that holds only 0 and scores with a class
  dimension of size 0, \<^verbatim>\<open>torch.argmax(y_pred, dim=1)\<close> raises before the list of
  classes is looked at.
\<close>

theorem iou_background_only_counterexample:
  "set (flatten3 [[[0 :: int]]]) \<subseteq> {0} \<and> iou [[[0]]] [[]] = Inl IndexError"
  by (simp add: flatten3_def iou_def argmax_dim1_def argmax_sample_def)

text \<open>
  C4, amended: when the ground truth holds no value but 0 and every sample of the scores
  has at least one class channel, \<open>iou\<close> returns not-a-number and raises no error.
\<close>

theorem iou_background_only:
  assumes "set (flatten3 y_true) \<subseteq> {0}" and "\<forall>s \<in> set y_pred. s \<noteq> []"
  shows "iou y_true y_pred = Inr NaN"
proof -
  from argmax_dim1_total [OF assms(2)] obtain p where "argmax_dim1 y_pred = Inr p" ..
  then show ?thesis
    by (simp add: iou_def scored_classes_background [OF assms(1)] np_mean_def)
qed

theorem iou_background_only_witness:
  "set (flatten3 [[[0, 0], [0, 0 :: int]]]) \<subseteq> {0} \<and> [] \<notin> set demo_scores
   \<and> iou [[[0, 0], [0, 0]]] demo_scores = Inr NaN"
proof -
  have a: "set (flatten3 [[[0, 0], [0, 0 :: int]]]) \<subseteq> {0}" by (simp add: flatten3_def)
  have b: "\<forall>s \<in> set demo_scores. s \<noteq> []" by (simp add: demo_scores_def)
  have "[] \<notin> set demo_scores" using b by blast
  then show ?thesis using a iou_background_only [OF a b] by simp
qed

lemma concat_map2:
  assumes "map length xs = map length ys"
  shows "concat (map2 (map2 f) xs ys) = map2 f (concat xs) (concat ys)"
  using assms
proof (induction xs arbitrary: ys)
  case Nil
  then show ?case by simp
next
  case (Cons x xs)
  then obtain y ys' where ys: "ys = y # ys'" by (cases ys) auto
  with Cons.prems have "length x = length y" "map length xs = map length ys'" by auto
  then show ?case using Cons.IH [of ys'] by (simp add: ys)
qed

lemma shape3_lengths:
  assumes "shape3 a = shape3 b"
  shows "map length a = map length b" and "map length (concat a) = map length (concat b)"
proof -
  have "map length (map (map length) a) = map length (map (map length) b)"
    using assms by (simp add: shape3_def)
  then show "map length a = map length b" by (simp add: comp_def)
  have "concat (map (map length) a) = concat (map (map length) b)"
    using assms by (simp add: shape3_def)
  then show "map length (concat a) = map length (concat b)" by (simp add: map_concat)
qed

lemma flatten3_map2:
  assumes "shape3 a = shape3 b"
  shows "flatten3 (map2 (map2 (map2 f)) a b) = map2 f (flatten3 a) (flatten3 b)"
  using shape3_lengths [OF assms] by (simp add: flatten3_def concat_map2)

lemma flatten3_tensor_eq: "flatten3 (tensor_eq t c) = map (\<lambda>v. v = c) (flatten3 t)"
  by (simp add: flatten3_def tensor_eq_def map_concat)

lemma shape3_tensor_eq: "shape3 (tensor_eq t c) = shape3 t"
  by (simp add: shape3_def tensor_eq_def comp_def)

lemma length_flatten3:
  assumes "shape3 a = shape3 b"
  shows "length (flatten3 a) = length (flatten3 b)"
proof -
  have "length (map length (concat a)) = length (map length (concat b))"
    using shape3_lengths(2) [OF assms] by simp
  then have "length (concat a) = length (concat b)" by simp
  have "sum_list (map length (concat a)) = sum_list (map length (concat b))"
    using shape3_lengths(2) [OF assms] by simp
  then show ?thesis by (simp add: flatten3_def length_concat)
qed

lemma filter_or_nonempty:
  assumes "length xs = length ys" and "c \<in> set ys"
  shows "filter id (map2 (\<or>) (map P xs) (map (\<lambda>v. v = c) ys)) \<noteq> []"
proof -
  from assms(2) obtain k where k: "k < length ys" "ys ! k = c"
    by (auto simp: in_set_conv_nth)
  let ?zs = "map2 (\<or>) (map P xs) (map (\<lambda>v. v = c) ys)"
  have "k < length ?zs" using k assms(1) by simp
  moreover have "?zs ! k" using k assms(1) by simp
  ultimately have "True \<in> set ?zs" by (metis nth_mem)
  then show ?thesis by (auto simp: filter_empty_conv)
qed

lemma class_union_positive:
  assumes "shape3 predicted_image = shape3 y_true" and "c \<in> set (flatten3 y_true)"
  shows "0 < float_sum (class_union predicted_image y_true c)"
proof -
  have sh: "shape3 (tensor_eq predicted_image c) = shape3 (tensor_eq y_true c)"
    using assms(1) by (simp add: shape3_tensor_eq)
  have fl: "flatten3 (class_union predicted_image y_true c)
      = map2 (\<or>) (map (\<lambda>v. v = c) (flatten3 predicted_image)) (map (\<lambda>v. v = c) (flatten3 y_true))"
    unfolding class_union_def tensor_or_def
    by (simp only: flatten3_map2 [OF sh] flatten3_tensor_eq)
  have "filter id (flatten3 (class_union predicted_image y_true c)) \<noteq> []"
    unfolding fl by (rule filter_or_nonempty [OF length_flatten3 [OF assms(1)] assms(2)])
  then have "0 < length (filter id (flatten3 (class_union predicted_image y_true c)))"
    by (rule length_greater_0_conv [THEN iffD2])
  then show ?thesis by (simp only: float_sum_def of_nat_0_less_iff)
qed

text \<open>
  C5: the classes \<open>iou\<close> iterates over are the distinct values of the
  ground truth, whatever the prediction, and the classes it scores are among them. For
  a prediction of the shape of the ground truth, the union mask of every scored class
  has a cell set, so the division of \<open>_class_iou\<close> is by a number other than 0 and
  returns the ratio of the two counts.
\<close>

theorem iou_union_nonempty:
  assumes "argmax_dim1 y_pred = Inr predicted_image"
    and "shape3 predicted_image = shape3 y_true"
  shows "set (true_classes y_true) = set (flatten3 y_true)
       \<and> set (scored_classes y_true) \<subseteq> set (true_classes y_true)
       \<and> (\<forall>c \<in> set (scored_classes y_true).
            float_sum (class_union predicted_image y_true c) \<noteq> 0
          \<and> class_iou predicted_image y_true c
              = Fin (float_sum (class_intersection predicted_image y_true c)
                     / float_sum (class_union predicted_image y_true c)))
       \<and> iou y_true y_pred
           = Inr (np_mean (map (class_iou predicted_image y_true) (scored_classes y_true)))"
proof -
  have pos: "0 < float_sum (class_union predicted_image y_true c)"
    if "c \<in> set (scored_classes y_true)" for c
    using that class_union_positive [OF assms(2)] by (simp add: set_scored_classes)
  have "float_sum (class_union predicted_image y_true c) \<noteq> 0
      \<and> class_iou predicted_image y_true c
          = Fin (float_sum (class_intersection predicted_image y_true c)
                 / float_sum (class_union predicted_image y_true c))"
    if "c \<in> set (scored_classes y_true)" for c
    using pos [OF that] by (simp add: class_iou_def fdiv_def)
  moreover have "set (scored_classes y_true) \<subseteq> set (true_classes y_true)"
    by (auto simp: scored_classes_def)
  moreover have "iou y_true y_pred
      = Inr (np_mean (map (class_iou predicted_image y_true) (scored_classes y_true)))"
    by (simp add: iou_def assms)
  ultimately show ?thesis using set_true_classes by blast
qed

theorem iou_union_nonempty_witness:
  "argmax_dim1 demo_scores = Inr demo_true
   \<and> shape3 demo_true = shape3 [[[0, 2], [2, 1 :: int]]]
   \<and> scored_classes [[[0, 2], [2, 1]]] = [1, 2]
   \<and> float_sum (class_union demo_true [[[0, 2], [2, 1]]] 1) \<noteq> 0
   \<and> float_sum (class_union demo_true [[[0, 2], [2, 1]]] 2) \<noteq> 0
   \<and> iou [[[0, 2], [2, 1]]] demo_scores
       = Inr (np_mean (map (class_iou demo_true [[[0, 2], [2, 1]]]) [1, 2]))"
proof -
  have s: "shape3 demo_true = shape3 [[[0, 2], [2, 1 :: int]]]"
    by (simp add: shape3_def demo_true_def)
  have c: "scored_classes [[[0, 2], [2, 1]]] = [1, 2]"
    by (simp add: scored_classes_def true_classes_def unique_def flatten3_def)
  show ?thesis using demo_argmax s c iou_union_nonempty [OF demo_argmax s] by simp
qed

lemma map2_same: "map2 (map2 (map2 f)) a a = map (map (map (\<lambda>x. f x x))) a"
  by (simp add: zip_same_conv_map comp_def)

lemma class_masks_same:
  "class_union y y c = tensor_eq y c" "class_intersection y y c = tensor_eq y c"
  by (simp_all add: class_union_def class_intersection_def tensor_or_def tensor_and_def map2_same)

lemma class_iou_same:
  assumes "c \<in> set (flatten3 y)"
  shows "class_iou y y c = Fin 1"
proof -
  have "0 < float_sum (class_union y y c)"
    using class_union_positive [OF refl assms] .
  then show ?thesis by (simp add: class_iou_def class_masks_same fdiv_def)
qed

lemma foldl_fadd_ones:
  assumes "\<forall>x \<in> set xs. x = Fin 1"
  shows "foldl fadd (Fin a) xs = Fin (a + real (length xs))"
  using assms by (induction xs arbitrary: a) (auto simp: algebra_simps)

lemma np_mean_ones:
  assumes "xs \<noteq> []" and "\<forall>x \<in> set xs. x = Fin 1"
  shows "np_mean xs = Fin 1"
  using assms(1) by (simp add: np_mean_def foldl_fadd_ones [OF assms(2)])

text \<open>
  C6: when the distinct values of the ground truth are exactly 0, 1 and
  2 and the arg-max of the scores over the class channel is the ground truth, \<open>iou\<close>
  returns 1.
\<close>

theorem iou_perfect_prediction:
  assumes "set (flatten3 y_true) = {0, 1, 2}" and "argmax_dim1 y_pred = Inr y_true"
  shows "iou y_true y_pred = Inr (Fin 1)"
proof -
  have "1 \<in> set (scored_classes y_true)" using assms(1) by (simp add: set_scored_classes)
  then have ne: "map (class_iou y_true y_true) (scored_classes y_true) \<noteq> []" by auto
  have "\<forall>x \<in> set (map (class_iou y_true y_true) (scored_classes y_true)). x = Fin 1"
    by (auto simp: set_scored_classes class_iou_same)
  from np_mean_ones [OF ne this] show ?thesis by (simp add: iou_def assms(2))
qed

theorem iou_perfect_prediction_witness:
  "set (flatten3 demo_true) = {0, 1, 2} \<and> argmax_dim1 demo_scores = Inr demo_true
   \<and> iou demo_true demo_scores = Inr (Fin 1)"
proof -
  have s: "set (flatten3 demo_true) = {0, 1, 2}"
    by (auto simp: flatten3_def demo_true_def)
  show ?thesis using s demo_argmax iou_perfect_prediction [OF s demo_argmax] by simp
qed

end
